theory Spec2Isabelle
  imports Main
begin

section \<open>CommunicationManager: sending, receiving and ordering messages\<close>

text \<open>
  A shallow embedding of \<^verbatim>\<open>CommunicationManager.py\<close>. Python strings are modelled as
  \<^typ>\<open>string\<close>, one \<^typ>\<open>char\<close> per code point below 256; Python integers are \<^typ>\<open>int\<close>
  with the limit of 4300 digits that the interpreter (CPython 3.11, default settings) puts
  on conversions between integers and decimal strings: beyond it \<^verbatim>\<open>int\<close> and
  \<^verbatim>\<open>format\<close> raise \<^verbatim>\<open>ValueError\<close>. The calls to \<^verbatim>\<open>print\<close> only write to the console
  and are left out; the one in \<^verbatim>\<open>receive_message\<close> renders a counter that \<^verbatim>\<open>int\<close> has
  just read, which is within the limit.
\<close>

subsection \<open>Python string primitives used by the source\<close>

datatype error = ValueError string

text \<open>\<^verbatim>\<open>s.split(sep)\<close> for a one-character separator: every occurrence of the separator
  ends a field, so the result always has one more field than there are separators.\<close>

fun split_on :: "char \<Rightarrow> string \<Rightarrow> string list" where
  "split_on sep [] = [[]]"
| "split_on sep (c # cs) =
     (if c = sep then [] # split_on sep cs
      else (case split_on sep cs of
              [] \<Rightarrow> [[c]]
            | f # fs \<Rightarrow> (c # f) # fs))"

definition is_digit :: "char \<Rightarrow> bool" where
  "is_digit c = (48 \<le> (of_char c :: nat) \<and> (of_char c :: nat) \<le> 57)"

definition digit_value :: "char \<Rightarrow> nat" where
  "digit_value c = of_char c - 48"

definition digit_char :: "nat \<Rightarrow> char" where
  "digit_char d = char_of (48 + d)"

text \<open>The characters \<^verbatim>\<open>int()\<close> skips around a number: tab, line feed, vertical tab, form
  feed, carriage return, space, and the two Latin-1 spaces U+0085 and U+00A0.\<close>

definition int_space :: "char \<Rightarrow> bool" where
  "int_space c =
     (let n = (of_char c :: nat)
      in (9 \<le> n \<and> n \<le> 13) \<or> n = 32 \<or> n = 133 \<or> n = 160)"

definition strip_spaces :: "string \<Rightarrow> string" where
  "strip_spaces s = rev (dropWhile int_space (rev (dropWhile int_space s)))"

text \<open>The digits of a decimal literal after its first digit: a single underscore is
  allowed between two digits, nowhere else.\<close>

fun more_digits :: "nat \<Rightarrow> string \<Rightarrow> nat option" where
  "more_digits acc [] = Some acc"
| "more_digits acc [c] =
     (if is_digit c then Some (10 * acc + digit_value c) else None)"
| "more_digits acc (c # d # ds) =
     (if is_digit c then more_digits (10 * acc + digit_value c) (d # ds)
      else if c = CHR ''_'' \<and> is_digit d then more_digits (10 * acc + digit_value d) ds
      else None)"

text \<open>\<^verbatim>\<open>sys.get_int_max_str_digits()\<close>, at its default.\<close>

definition int_max_str_digits :: nat where
  "int_max_str_digits = 4300"

text \<open>An unsigned decimal literal. A literal with more digit characters than the limit
  is refused, whatever its value (leading zeros count, underscores do not).\<close>

definition unsigned_literal :: "string \<Rightarrow> nat option" where
  "unsigned_literal s =
     (if int_max_str_digits < length (filter is_digit s) then None
      else (case s of
              [] \<Rightarrow> None
            | c # cs \<Rightarrow> if is_digit c then more_digits (digit_value c) cs else None))"

text \<open>\<^verbatim>\<open>int(s)\<close> in base ten; \<open>None\<close> stands for the \<^verbatim>\<open>ValueError\<close> it raises.\<close>

definition py_int :: "string \<Rightarrow> int option" where
  "py_int s =
     (case strip_spaces s of
        [] \<Rightarrow> None
      | c # cs \<Rightarrow>
          if c = CHR ''-'' then map_option (\<lambda>n. - int n) (unsigned_literal cs)
          else if c = CHR ''+'' then map_option int (unsigned_literal cs)
          else map_option int (unsigned_literal (c # cs)))"

text \<open>The decimal digits of a natural number, and the decimal form of an integer.\<close>

fun nat_digits :: "nat \<Rightarrow> string" where
  "nat_digits n =
     (if n < 10 then [digit_char n]
      else nat_digits (n div 10) @ [digit_char (n mod 10)])"

declare nat_digits.simps [simp del]

definition int_decimal :: "int \<Rightarrow> string" where
  "int_decimal i = (if i < 0 then CHR ''-'' # nat_digits (nat (- i)) else nat_digits (nat i))"

definition digits_limit_error :: error where
  "digits_limit_error =
     ValueError (''Exceeds the limit (4300 digits) for integer string conversion; '' @
                 ''use sys.set_int_max_str_digits() to increase the limit'')"

text \<open>\<^verbatim>\<open>str(n)\<close> for an integer, which is what \<^verbatim>\<open>"{}".format(n)\<close> renders. An integer
  with more decimal digits than the limit is not rendered: the conversion raises
  \<^verbatim>\<open>ValueError\<close> with the text above.\<close>

definition py_str_int :: "int \<Rightarrow> error + string" where
  "py_str_int i =
     (if int_max_str_digits < length (nat_digits (nat \<bar>i\<bar>)) then Inl digits_limit_error
      else Inr (int_decimal i))"

subsection \<open>Data model\<close>

text \<open>The \<^verbatim>\<open>Message\<close> class comes from \<^verbatim>\<open>RobotUpInitializer\<close>; the source builds it as
  \<^verbatim>\<open>Message(id_sender, message_type, send_counter, payload, recipient)\<close> and reads these
  five attributes. The message type is whatever the caller stores there (a member of
  \<^verbatim>\<open>MESSAGE_TYPE_PRIORITY\<close>, or the string read from the wire), hence the type parameter.\<close>

record 'p Message =
  id_sender :: string
  message_type :: 'p
  send_counter :: int
  payload :: string
  recipient :: string

text \<open>What the manager touches of its robot: the name, the known robots, the list of
  messages, the emitter and the receiver devices, and the simulation clock. The field
  \<open>medium\<close> is the environment: the frames that reach the receiver during each tick.\<close>

record robot =
  robot_name :: string
  known_robots :: "string list"
  list_messages :: "string Message list"
  basic_time_step :: int
  emitted :: "string list"
  queue :: "string list"
  ticks :: nat
  sim_time :: int
  medium :: "nat \<Rightarrow> string list"

record manager =
  robot :: robot
  time_step :: int
  max_send_counter :: int

subsection \<open>The devices and the clock\<close>

text \<open>The emitter, the receiver and \<^verbatim>\<open>robot.step\<close> belong to the simulator, not to the
  source file. They are modelled by what the source relies on: a queue of received
  frames with a length, a head and a way to delete the head, an emitter that takes
  frames, and a clock that only \<^verbatim>\<open>step\<close> advances.\<close>

text \<open>\<^verbatim>\<open>emitter.send(frame)\<close>: fire and forget.\<close>

definition emitter_send :: "string \<Rightarrow> robot \<Rightarrow> robot" where
  "emitter_send frame r = r\<lparr>emitted := emitted r @ [frame]\<rparr>"

definition getQueueLength :: "robot \<Rightarrow> nat" where
  "getQueueLength r = length (queue r)"

text \<open>\<^verbatim>\<open>receiver.getString()\<close> reads the head packet without removing it. The source only
  calls it on a non-empty queue; on an empty one the model returns the empty string.\<close>

definition getString :: "robot \<Rightarrow> string" where
  "getString r = (case queue r of [] \<Rightarrow> [] | f # _ \<Rightarrow> f)"

text \<open>\<^verbatim>\<open>receiver.nextPacket()\<close> deletes the head packet.\<close>

definition nextPacket :: "robot \<Rightarrow> robot" where
  "nextPacket r = r\<lparr>queue := (case queue r of [] \<Rightarrow> [] | _ # fs \<Rightarrow> fs)\<rparr>"

text \<open>\<^verbatim>\<open>robot.step(ms)\<close>: one tick of simulated time elapses, during which the medium
  delivers its frames to the back of the receiver queue.\<close>

definition step :: "int \<Rightarrow> robot \<Rightarrow> robot" where
  "step ms r =
     r\<lparr>queue := queue r @ medium r (ticks r),
       ticks := Suc (ticks r),
       sim_time := sim_time r + ms\<rparr>"

text \<open>Modelled from the spec: \<^verbatim>\<open>robot.append(msg)\<close> is not part of the source file. The
  inbox sink inserts the message into \<^verbatim>\<open>list_messages\<close> and is itself responsible for
  the priority order, so the insertion \<open>ins\<close> is a parameter.\<close>

definition robot_append ::
  "(string Message \<Rightarrow> string Message list \<Rightarrow> string Message list) \<Rightarrow>
   string Message \<Rightarrow> robot \<Rightarrow> robot" where
  "robot_append ins m r = r\<lparr>list_messages := ins m (list_messages r)\<rparr>"

subsection \<open>The manager\<close>

definition CommunicationManager :: "robot \<Rightarrow> manager" where
  "CommunicationManager r =
     \<lparr>robot = r, time_step = basic_time_step r, max_send_counter = 5\<rparr>"

text \<open>The frame built by the first statement of \<^verbatim>\<open>send_message\<close>; \<open>fmt\<close> renders the
  message type as \<^verbatim>\<open>"{}".format\<close> does. The statement raises when the counter plus one
  cannot be rendered.\<close>

definition outgoing_msg :: "('p \<Rightarrow> string) \<Rightarrow> 'p Message \<Rightarrow> error + string" where
  "outgoing_msg fmt msg =
     (case py_str_int (send_counter msg + 1) of
        Inl e \<Rightarrow> Inl e
      | Inr counter \<Rightarrow>
          Inr (id_sender msg @ '';'' @ fmt (message_type msg) @ '';'' @
               counter @ '';'' @ payload msg @ '';'' @ recipient msg))"

text \<open>\<^verbatim>\<open>send_message\<close> receives the message by reference, so the model returns the
  message as the call leaves it together with the manager. An error raised while the
  frame is built leaves the call before the emitter and the clock are touched.\<close>

definition send_message ::
  "('p \<Rightarrow> string) \<Rightarrow> manager \<Rightarrow> 'p Message \<Rightarrow> (error + unit) \<times> 'p Message \<times> manager" where
  "send_message fmt cm msg =
     (case outgoing_msg fmt msg of
        Inl e \<Rightarrow> (Inl e, msg, cm)
      | Inr frame \<Rightarrow>
          (Inr (), msg, cm\<lparr>robot := step (time_step cm) (emitter_send frame (robot cm))\<rparr>))"

text \<open>The loop of \<^verbatim>\<open>send_message_all\<close> over the known robots; an error raised by one
  \<^verbatim>\<open>send_message\<close> ends it.\<close>

fun send_each ::
  "('p \<Rightarrow> string) \<Rightarrow> string \<Rightarrow> 'p \<Rightarrow> int \<Rightarrow> string \<Rightarrow> string list \<Rightarrow> manager \<Rightarrow>
   (error + unit) \<times> manager" where
  "send_each fmt sender mtype counter pl [] cm = (Inr (), cm)"
| "send_each fmt sender mtype counter pl (peer # peers) cm =
     (case send_message fmt cm
             \<lparr>id_sender = sender, message_type = mtype, send_counter = counter,
              payload = pl, recipient = peer\<rparr> of
        (Inl e, _, cm') \<Rightarrow> (Inl e, cm')
      | (Inr _, _, cm') \<Rightarrow> send_each fmt sender mtype counter pl peers cm')"

definition send_message_all ::
  "('p \<Rightarrow> string) \<Rightarrow> manager \<Rightarrow> string \<Rightarrow> 'p \<Rightarrow> int \<Rightarrow> string \<Rightarrow> (error + unit) \<times> manager" where
  "send_message_all fmt cm sender mtype counter pl =
     send_each fmt sender mtype counter pl (known_robots (robot cm)) cm"

definition invalid_format :: "string \<Rightarrow> error" where
  "invalid_format incoming_msg =
     ValueError (''Invalid message format: '' @ [CHR 0x27] @ incoming_msg @ [CHR 0x27])"

text \<open>Splitting the frame into its five parts and reading the counter, the first two
  statements of the \<^verbatim>\<open>try\<close> block. The five local variables are returned as the
  \<^verbatim>\<open>Message\<close> the source builds from them; a wrong number of parts and a counter
  that \<^verbatim>\<open>int\<close> refuses both end in the \<^verbatim>\<open>except ValueError\<close> branch.\<close>

definition parse_frame :: "string \<Rightarrow> error + string Message" where
  "parse_frame incoming_msg =
     (case split_on CHR '';'' incoming_msg of
        [sender, mtype, counter, pl, rcpt] \<Rightarrow>
          (case py_int counter of
             None \<Rightarrow> Inl (invalid_format incoming_msg)
           | Some n \<Rightarrow>
               Inr \<lparr>id_sender = sender, message_type = mtype, send_counter = n,
                    payload = pl, recipient = rcpt\<rparr>)
      | _ \<Rightarrow> Inl (invalid_format incoming_msg))"

text \<open>The body of the \<^verbatim>\<open>try\<close> block for one dequeued frame, up to the call of
  \<^verbatim>\<open>robot.append\<close>: \<open>Inl\<close> is the error raised, \<open>Inr None\<close> a frame that is skipped or
  discarded, \<open>Inr (Some m)\<close> the message handed to \<^verbatim>\<open>robot.append\<close>.\<close>

definition consider_frame :: "string \<Rightarrow> int \<Rightarrow> string \<Rightarrow> error + string Message option" where
  "consider_frame me max_counter incoming_msg =
     (if incoming_msg = [] then Inr None
      else (case parse_frame incoming_msg of
              Inl e \<Rightarrow> Inl e
            | Inr m \<Rightarrow>
                if recipient m = [] \<or> recipient m = me \<and> send_counter m < max_counter
                then Inr (Some m)
                else Inr None))"

text \<open>The \<^verbatim>\<open>for _ in range(n)\<close> loop of \<^verbatim>\<open>receive_message\<close>: read the head, delete it, then
  look at it. An error leaves the loop with the state as it is at that moment.\<close>

fun drain_loop ::
  "(string Message \<Rightarrow> string Message list \<Rightarrow> string Message list) \<Rightarrow>
   nat \<Rightarrow> manager \<Rightarrow> (error + unit) \<times> manager" where
  "drain_loop ins 0 cm = (Inr (), cm)"
| "drain_loop ins (Suc k) cm =
     (let incoming_msg = getString (robot cm);
          cm1 = cm\<lparr>robot := nextPacket (robot cm)\<rparr>
      in case consider_frame (robot_name (robot cm1)) (max_send_counter cm1) incoming_msg of
           Inl e \<Rightarrow> (Inl e, cm1)
         | Inr None \<Rightarrow> drain_loop ins k cm1
         | Inr (Some m) \<Rightarrow> drain_loop ins k (cm1\<lparr>robot := robot_append ins m (robot cm1)\<rparr>))"

definition receive_message ::
  "(string Message \<Rightarrow> string Message list \<Rightarrow> string Message list) \<Rightarrow>
   manager \<Rightarrow> (error + unit) \<times> manager" where
  "receive_message ins cm =
     (let cm1 = cm\<lparr>robot := step (time_step cm) (robot cm)\<rparr>
      in drain_loop ins (getQueueLength (robot cm1)) cm1)"

text \<open>\<^verbatim>\<open>MESSAGE_TYPE_PRIORITY.priority\<close>, the rank of a rendered message type, and the
  renderings \<^verbatim>\<open>str(...)\<close> of the two arguments are parameters.\<close>

definition is_the_message_prioritary ::
  "(string \<Rightarrow> 'r::linorder) \<Rightarrow> ('p \<Rightarrow> string) \<Rightarrow> ('q \<Rightarrow> string) \<Rightarrow> 'p Message \<Rightarrow> 'q \<Rightarrow> bool" where
  "is_the_message_prioritary priority str_msg str_task msg current_task =
     (priority (str_msg (message_type msg)) > priority (str_task current_task))"

text \<open>The \<^verbatim>\<open>while\<close> loop of \<^verbatim>\<open>clear_messages\<close>.\<close>

function drain_queue :: "robot \<Rightarrow> robot" where
  "drain_queue r = (if getQueueLength r > 0 then drain_queue (nextPacket r) else r)"
  by pat_completeness auto
termination
  by (relation "measure (\<lambda>r. length (queue r))")
     (auto simp: getQueueLength_def nextPacket_def split: list.splits)

declare drain_queue.simps [simp del]

definition clear_messages :: "manager \<Rightarrow> manager" where
  "clear_messages cm = cm\<lparr>robot := (drain_queue (robot cm))\<lparr>list_messages := []\<rparr>\<rparr>"

subsection \<open>Notions used in the statements\<close>

text \<open>The value of a run of decimal digits read after the value \<open>acc\<close>.\<close>

definition decimal_value :: "nat \<Rightarrow> string \<Rightarrow> nat" where
  "decimal_value acc ds = foldl (\<lambda>a c. 10 * a + digit_value c) acc ds"

text \<open>The messages that a batch of frames hands to \<^verbatim>\<open>robot.append\<close>, in queue order.\<close>

definition accepted :: "string \<Rightarrow> int \<Rightarrow> string list \<Rightarrow> string Message list" where
  "accepted me max_counter frames =
     List.map_filter
       (\<lambda>f. case consider_frame me max_counter f of Inr (Some m) \<Rightarrow> Some m | _ \<Rightarrow> None)
       frames"

section \<open>Properties\<close>

subsection \<open>Splitting, reading and rendering\<close>

lemma split_on_no_sep: "sep \<notin> set s \<Longrightarrow> split_on sep s = [s]"
  by (induction s) auto

lemma split_on_field: "sep \<notin> set a \<Longrightarrow> split_on sep (a @ sep # rest) = a # split_on sep rest"
  by (induction a) (auto split: list.splits)

lemma digit_value_digit_char: "d < 10 \<Longrightarrow> digit_value (digit_char d) = d"
  by (simp add: digit_value_def digit_char_def)

lemma is_digit_digit_char: "d < 10 \<Longrightarrow> is_digit (digit_char d)"
  by (simp add: is_digit_def digit_char_def)

lemma is_digit_not_space: "is_digit c \<Longrightarrow> \<not> int_space c"
  by (auto simp: is_digit_def int_space_def Let_def)

lemma is_digit_neq: "is_digit c \<Longrightarrow> c \<noteq> CHR '';'' \<and> c \<noteq> CHR ''-'' \<and> c \<noteq> CHR ''+''"
  by (auto simp: is_digit_def)

lemma nat_digits_all: "list_all is_digit (nat_digits n)"
proof (induction n rule: nat_digits.induct)
  case (1 n)
  then show ?case
    by (subst nat_digits.simps) (simp add: is_digit_digit_char)
qed

lemma nat_digits_not_Nil: "nat_digits n \<noteq> []"
  by (subst nat_digits.simps) simp

lemma filter_nat_digits: "filter is_digit (nat_digits n) = nat_digits n"
  using nat_digits_all [of n] by (simp add: list_all_iff)

lemma length_nat_digits_gt: "10 ^ k \<le> n \<Longrightarrow> k < length (nat_digits n)"
proof (induction n arbitrary: k rule: nat_digits.induct)
  case (1 n)
  show ?case
  proof (cases k)
    case 0
    then show ?thesis using nat_digits_not_Nil [of n] by simp
  next
    case (Suc j)
    have one: "(1::nat) \<le> 10 ^ j" by simp
    from "1.prems" Suc have ten: "10 * 10 ^ j \<le> n" by simp
    with one have big: "\<not> n < 10" by linarith
    from ten have "10 ^ j \<le> n div 10" by (simp add: less_eq_div_iff_mult_less_eq mult.commute)
    with big have "j < length (nat_digits (n div 10))"
      by (intro "1.IH") 
    with big Suc show ?thesis
      by (subst nat_digits.simps) simp
  qed
qed

lemma length_nat_digits_le: "n < 10 ^ k \<Longrightarrow> 0 < k \<Longrightarrow> length (nat_digits n) \<le> k"
proof (induction n arbitrary: k rule: nat_digits.induct)
  case (1 n)
  show ?case
  proof (cases "n < 10")
    case True
    with "1.prems" show ?thesis by (subst nat_digits.simps) simp
  next
    case False
    obtain j where k: "k = Suc j" using "1.prems"(2) by (cases k) auto
    have j: "0 < j" using False "1.prems"(1) k by (cases j) auto
    have "n div 10 < 10 ^ j"
      using "1.prems"(1) k by (simp add: div_less_iff_less_mult mult.commute)
    then have "length (nat_digits (n div 10)) \<le> j"
      using False j by (intro "1.IH")
    with False k show ?thesis
      by (subst nat_digits.simps) simp
  qed
qed

lemma more_digits_all:
  "list_all is_digit ds \<Longrightarrow> more_digits acc ds = Some (decimal_value acc ds)"
  by (induction acc ds rule: more_digits.induct) (simp_all add: decimal_value_def)

lemma decimal_value_nat_digits: "decimal_value 0 (nat_digits n) = n"
proof (induction n rule: nat_digits.induct)
  case (1 n)
  show ?case
  proof (cases "n < 10")
    case True
    then show ?thesis
      by (subst nat_digits.simps) (simp add: decimal_value_def digit_value_digit_char)
  next
    case False
    then have "decimal_value 0 (nat_digits n) =
        10 * decimal_value 0 (nat_digits (n div 10)) + digit_value (digit_char (n mod 10))"
      by (subst nat_digits.simps) (simp add: decimal_value_def)
    with False 1 show ?thesis by (simp add: digit_value_digit_char)
  qed
qed

lemma unsigned_literal_nat_digits:
  assumes "length (nat_digits n) \<le> int_max_str_digits"
  shows "unsigned_literal (nat_digits n) = Some n"
proof -
  obtain c cs where split: "nat_digits n = c # cs"
    using nat_digits_not_Nil [of n] by (cases "nat_digits n") auto
  have all: "is_digit c" "list_all is_digit cs"
    using nat_digits_all [of n] by (simp_all add: split)
  have short: "\<not> int_max_str_digits < length (filter is_digit (nat_digits n))"
    using assms by (simp add: filter_nat_digits)
  then have "unsigned_literal (nat_digits n) = Some (decimal_value (digit_value c) cs)"
    using all unfolding unsigned_literal_def by (simp add: split more_digits_all)
  also have "decimal_value (digit_value c) cs = decimal_value 0 (nat_digits n)"
    by (simp add: split decimal_value_def)
  finally show ?thesis by (simp add: decimal_value_nat_digits)
qed

lemma dropWhile_hd: "xs \<noteq> [] \<Longrightarrow> \<not> P (hd xs) \<Longrightarrow> dropWhile P xs = xs"
  by (cases xs) auto

lemma strip_spaces_id:
  assumes "s \<noteq> []" "\<not> int_space (hd s)" "\<not> int_space (last s)"
  shows "strip_spaces s = s"
  using assms by (simp add: strip_spaces_def dropWhile_hd hd_rev)

lemma last_nat_digits: "is_digit (last (nat_digits n))"
  using nat_digits_all [of n] nat_digits_not_Nil [of n]
  by (simp add: list_all_iff)

lemma hd_nat_digits: "is_digit (hd (nat_digits n))"
  using nat_digits_all [of n] nat_digits_not_Nil [of n]
  by (cases "nat_digits n") simp_all

lemma minus_not_space: "\<not> int_space CHR ''-''"
  by (simp add: int_space_def)

lemma py_int_int_decimal:
  assumes "length (nat_digits (nat \<bar>i\<bar>)) \<le> int_max_str_digits"
  shows "py_int (int_decimal i) = Some i"
proof (cases "i < 0")
  case True
  let ?ds = "nat_digits (nat (- i))"
  have len: "length ?ds \<le> int_max_str_digits"
    using assms True by simp
  have "strip_spaces (CHR ''-'' # ?ds) = CHR ''-'' # ?ds"
    using last_nat_digits [of "nat (- i)"] nat_digits_not_Nil [of "nat (- i)"]
    by (intro strip_spaces_id) (simp_all add: is_digit_not_space minus_not_space)
  with True show ?thesis
    by (simp add: py_int_def int_decimal_def unsigned_literal_nat_digits [OF len])
next
  case False
  let ?ds = "nat_digits (nat i)"
  have len: "length ?ds \<le> int_max_str_digits"
    using assms False by simp
  obtain c cs where split: "?ds = c # cs"
    using nat_digits_not_Nil [of "nat i"] by (cases ?ds) auto
  have c: "is_digit c" using hd_nat_digits [of "nat i"] by (simp add: split)
  have "strip_spaces ?ds = ?ds"
    using last_nat_digits [of "nat i"] hd_nat_digits [of "nat i"] nat_digits_not_Nil [of "nat i"]
    by (intro strip_spaces_id) (simp_all add: is_digit_not_space)
  then have "py_int ?ds = map_option int (unsigned_literal ?ds)"
    using is_digit_neq [OF c] by (simp add: py_int_def split)
  with False show ?thesis
    by (simp add: int_decimal_def unsigned_literal_nat_digits [OF len])
qed

lemma semicolon_notin_int_decimal: "CHR '';'' \<notin> set (int_decimal i)"
  using nat_digits_all [of "nat i"] nat_digits_all [of "nat (- i)"] is_digit_neq
  by (auto simp: int_decimal_def list_all_iff)

lemma int_max_str_digits_pos: "0 < int_max_str_digits"
  by (simp add: int_max_str_digits_def)

lemma py_str_int_in_range:
  assumes "\<bar>i\<bar> < 10 ^ int_max_str_digits"
  shows "py_str_int i = Inr (int_decimal i)"
    and "length (nat_digits (nat \<bar>i\<bar>)) \<le> int_max_str_digits"
proof -
  have "nat \<bar>i\<bar> < 10 ^ int_max_str_digits"
    using assms by (simp add: nat_less_iff)
  then show "length (nat_digits (nat \<bar>i\<bar>)) \<le> int_max_str_digits"
    using int_max_str_digits_pos by (rule length_nat_digits_le)
  then show "py_str_int i = Inr (int_decimal i)"
    by (simp add: py_str_int_def)
qed

lemma py_str_int_beyond:
  assumes "10 ^ int_max_str_digits \<le> \<bar>i\<bar>"
  shows "py_str_int i = Inl digits_limit_error"
proof -
  have "10 ^ int_max_str_digits \<le> nat \<bar>i\<bar>"
    using assms by (simp add: le_nat_iff)
  then have "int_max_str_digits < length (nat_digits (nat \<bar>i\<bar>))"
    by (rule length_nat_digits_gt)
  then show ?thesis by (simp add: py_str_int_def)
qed

lemma py_int_py_str_int: "py_str_int i = Inr s \<Longrightarrow> py_int s = Some i"
  by (auto simp: py_str_int_def py_int_int_decimal split: if_splits)

lemma py_str_int_1: "py_str_int 1 = Inr ''1''"
  by code_simp

lemma py_str_int_5: "py_str_int 5 = Inr ''5''"
  by code_simp

lemma outgoing_msg_in_range:
  assumes "\<bar>send_counter m + 1\<bar> < 10 ^ int_max_str_digits"
  shows "outgoing_msg fmt m =
     Inr (id_sender m @ '';'' @ fmt (message_type m) @ '';'' @
          int_decimal (send_counter m + 1) @ '';'' @ payload m @ '';'' @ recipient m)"
  by (simp add: outgoing_msg_def py_str_int_in_range(1) [OF assms])

lemma outgoing_msg_beyond:
  assumes "10 ^ int_max_str_digits \<le> \<bar>send_counter m + 1\<bar>"
  shows "outgoing_msg fmt m = Inl digits_limit_error"
  by (simp add: outgoing_msg_def py_str_int_beyond [OF assms])

lemma parse_outgoing_msg:
  assumes "CHR '';'' \<notin> set (id_sender m)" "CHR '';'' \<notin> set (fmt (message_type m))"
    "CHR '';'' \<notin> set (payload m)" "CHR '';'' \<notin> set (recipient m)"
    and "outgoing_msg fmt m = Inr frame"
  shows "parse_frame frame =
     Inr \<lparr>id_sender = id_sender m, message_type = fmt (message_type m),
          send_counter = send_counter m + 1, payload = payload m, recipient = recipient m\<rparr>"
proof -
  from assms(5) obtain counter where c: "py_str_int (send_counter m + 1) = Inr counter"
    and f: "frame = id_sender m @ '';'' @ fmt (message_type m) @ '';'' @
          counter @ '';'' @ payload m @ '';'' @ recipient m"
    by (auto simp: outgoing_msg_def split: sum.splits)
  from c have dec: "counter = int_decimal (send_counter m + 1)"
    by (simp add: py_str_int_def split: if_splits)
  have "split_on CHR '';'' frame =
      [id_sender m, fmt (message_type m), counter, payload m, recipient m]"
    using assms(1-4) semicolon_notin_int_decimal [of "send_counter m + 1"]
    by (simp add: f dec split_on_field split_on_no_sep)
  then show ?thesis
    by (simp add: parse_frame_def py_int_py_str_int [OF c])
qed

lemma filter_digit_dropWhile: "filter is_digit (dropWhile int_space s) = filter is_digit s"
  by (induction s) (auto dest: is_digit_not_space)

lemma filter_digit_strip_spaces: "filter is_digit (strip_spaces s) = filter is_digit s"
proof -
  have "filter is_digit (strip_spaces s) =
      rev (filter is_digit (dropWhile int_space (rev (dropWhile int_space s))))"
    by (simp add: strip_spaces_def rev_filter)
  then show ?thesis
    by (simp add: filter_digit_dropWhile rev_filter [symmetric])
qed

lemma py_int_too_long:
  assumes "int_max_str_digits < length (filter is_digit s)"
  shows "py_int s = None"
proof (cases "strip_spaces s")
  case Nil
  then show ?thesis by (simp add: py_int_def)
next
  case (Cons c cs)
  have all: "int_max_str_digits < length (filter is_digit (c # cs))"
    using assms filter_digit_strip_spaces [of s] by (simp add: Cons)
  show ?thesis
  proof (cases "is_digit c")
    case True
    with all show ?thesis
      using is_digit_neq [of c] by (simp add: py_int_def Cons unsigned_literal_def)
  next
    case False
    with all have "int_max_str_digits < length (filter is_digit cs)" by simp
    with False show ?thesis
      by (simp add: py_int_def Cons unsigned_literal_def)
  qed
qed

subsection \<open>Frames\<close>

lemma parse_frame_cases:
  "parse_frame f = Inl (invalid_format f) \<or> (\<exists>m. parse_frame f = Inr m)"
  by (auto simp: parse_frame_def split: list.splits option.splits)

lemma parse_frame_malformed:
  assumes "length (split_on CHR '';'' g) \<noteq> 5 \<or> py_int (split_on CHR '';'' g ! 2) = None"
  shows "parse_frame g = Inl (invalid_format g)"
  using assms by (auto simp: parse_frame_def split: list.splits option.splits)

lemma consider_frame_no_error:
  "(\<not> isl (consider_frame me mx g)) = (g = [] \<or> (\<exists>m. parse_frame g = Inr m))"
  using parse_frame_cases [of g]
  by (auto simp: consider_frame_def split: sum.splits)
lemma consider_frame_error:
  "g \<noteq> [] \<Longrightarrow> parse_frame g = Inl e \<Longrightarrow> consider_frame me mx g = Inl e"
  by (simp add: consider_frame_def)

subsection \<open>The drain loop\<close>

lemma accepted_Nil: "accepted me mx [] = []"
  by (simp add: accepted_def)

lemma accepted_append: "accepted me mx (xs @ ys) = accepted me mx xs @ accepted me mx ys"
  by (simp add: accepted_def map_filter_def)

lemma accepted_Cons:
  "accepted me mx (f # fs) =
     (case consider_frame me mx f of Inr (Some m) \<Rightarrow> [m] | _ \<Rightarrow> []) @ accepted me mx fs"
  by (simp add: accepted_def split: sum.splits option.splits)

lemma accepted_skip_empty:
  "accepted me mx (filter (\<lambda>g. g \<noteq> []) fs) = accepted me mx fs"
  by (induction fs) (simp_all add: accepted_Cons accepted_Nil consider_frame_def)

lemma drain_loop_ok:
  assumes "queue (robot cm) = fs @ rest"
    and "\<forall>f\<in>set fs. \<not> isl (consider_frame (robot_name (robot cm)) (max_send_counter cm) f)"
  shows "drain_loop ins (length fs) cm =
     (Inr (), cm\<lparr>robot := (robot cm)\<lparr>queue := rest,
        list_messages := foldl (\<lambda>l m. ins m l) (list_messages (robot cm))
          (accepted (robot_name (robot cm)) (max_send_counter cm) fs)\<rparr>\<rparr>)"
  using assms
proof (induction fs arbitrary: cm)
  case Nil
  then show ?case by (simp add: accepted_Nil)
next
  case (Cons f fs)
  let ?cm1 = "cm\<lparr>robot := nextPacket (robot cm)\<rparr>"
  have q1: "queue (robot ?cm1) = fs @ rest" and g: "getString (robot cm) = f"
    using Cons.prems(1) by (simp_all add: nextPacket_def getString_def)
  have nm: "robot_name (robot ?cm1) = robot_name (robot cm)" "max_send_counter ?cm1 = max_send_counter cm"
    by (simp_all add: nextPacket_def)
  show ?case
  proof (cases "consider_frame (robot_name (robot cm)) (max_send_counter cm) f")
    case (Inl e)
    with Cons.prems(2) show ?thesis by simp
  next
    case (Inr res)
    show ?thesis
    proof (cases res)
      case None
      have "drain_loop ins (length (f # fs)) cm = drain_loop ins (length fs) ?cm1"
        using Inr None g nm by (simp add: Let_def)
      also have "\<dots> = (Inr (), ?cm1\<lparr>robot := (robot ?cm1)\<lparr>queue := rest,
        list_messages := foldl (\<lambda>l m. ins m l) (list_messages (robot ?cm1))
          (accepted (robot_name (robot ?cm1)) (max_send_counter ?cm1) fs)\<rparr>\<rparr>)"
        using Cons.prems(2) q1 nm by (intro Cons.IH) simp_all
      finally show ?thesis
        using Inr None by (simp add: nextPacket_def accepted_def)
    next
      case (Some m)
      let ?cm2 = "?cm1\<lparr>robot := robot_append ins m (robot ?cm1)\<rparr>"
      have "drain_loop ins (length (f # fs)) cm = drain_loop ins (length fs) ?cm2"
        using Inr Some g nm by (simp add: Let_def)
      also have "\<dots> = (Inr (), ?cm2\<lparr>robot := (robot ?cm2)\<lparr>queue := rest,
        list_messages := foldl (\<lambda>l m. ins m l) (list_messages (robot ?cm2))
          (accepted (robot_name (robot ?cm2)) (max_send_counter ?cm2) fs)\<rparr>\<rparr>)"
        using Cons.prems(2) q1 nm by (intro Cons.IH) (simp_all add: robot_append_def)
      finally show ?thesis
        using Inr Some by (simp add: nextPacket_def robot_append_def accepted_def)
    qed
  qed
qed

lemma drain_loop_error:
  assumes "queue (robot cm) = pre @ f # post"
    and "\<forall>g\<in>set pre. \<not> isl (consider_frame (robot_name (robot cm)) (max_send_counter cm) g)"
    and "consider_frame (robot_name (robot cm)) (max_send_counter cm) f = Inl e"
  shows "drain_loop ins (length pre + Suc k) cm =
     (Inl e, cm\<lparr>robot := (robot cm)\<lparr>queue := post,
        list_messages := foldl (\<lambda>l m. ins m l) (list_messages (robot cm))
          (accepted (robot_name (robot cm)) (max_send_counter cm) pre)\<rparr>\<rparr>)"
  using assms
proof (induction pre arbitrary: cm)
  case Nil
  then show ?case
    by (simp add: accepted_Nil getString_def nextPacket_def Let_def)
next
  case (Cons g pre)
  let ?cm1 = "cm\<lparr>robot := nextPacket (robot cm)\<rparr>"
  have q1: "queue (robot ?cm1) = pre @ f # post" and gs: "getString (robot cm) = g"
    using Cons.prems(1) by (simp_all add: nextPacket_def getString_def)
  have nm: "robot_name (robot ?cm1) = robot_name (robot cm)" "max_send_counter ?cm1 = max_send_counter cm"
    by (simp_all add: nextPacket_def)
  show ?case
  proof (cases "consider_frame (robot_name (robot cm)) (max_send_counter cm) g")
    case (Inl e')
    with Cons.prems(2) show ?thesis by simp
  next
    case (Inr res)
    show ?thesis
    proof (cases res)
      case None
      have "drain_loop ins (length (g # pre) + Suc k) cm = drain_loop ins (length pre + Suc k) ?cm1"
        using Inr None gs nm by (simp add: Let_def)
      also have "\<dots> = (Inl e, ?cm1\<lparr>robot := (robot ?cm1)\<lparr>queue := post,
        list_messages := foldl (\<lambda>l m. ins m l) (list_messages (robot ?cm1))
          (accepted (robot_name (robot ?cm1)) (max_send_counter ?cm1) pre)\<rparr>\<rparr>)"
        using Cons.prems(2,3) q1 nm by (intro Cons.IH) simp_all
      finally show ?thesis
        using Inr None by (simp add: nextPacket_def accepted_def)
    next
      case (Some m)
      let ?cm2 = "?cm1\<lparr>robot := robot_append ins m (robot ?cm1)\<rparr>"
      have "drain_loop ins (length (g # pre) + Suc k) cm = drain_loop ins (length pre + Suc k) ?cm2"
        using Inr Some gs nm by (simp add: Let_def)
      also have "\<dots> = (Inl e, ?cm2\<lparr>robot := (robot ?cm2)\<lparr>queue := post,
        list_messages := foldl (\<lambda>l m. ins m l) (list_messages (robot ?cm2))
          (accepted (robot_name (robot ?cm2)) (max_send_counter ?cm2) pre)\<rparr>\<rparr>)"
        using Cons.prems(2,3) q1 nm by (intro Cons.IH) (simp_all add: robot_append_def)
      finally show ?thesis
        using Inr Some by (simp add: nextPacket_def robot_append_def accepted_def)
    qed
  qed
qed

lemma receive_message_ok:
  assumes "\<forall>g\<in>set (queue (robot cm) @ medium (robot cm) (ticks (robot cm))).
             g = [] \<or> (\<exists>m. parse_frame g = Inr m)"
  shows "receive_message ins cm =
     (Inr (), cm\<lparr>robot := (step (time_step cm) (robot cm))\<lparr>queue := [],
        list_messages := foldl (\<lambda>l m. ins m l) (list_messages (robot cm))
          (accepted (robot_name (robot cm)) (max_send_counter cm)
             (queue (robot cm) @ medium (robot cm) (ticks (robot cm))))\<rparr>\<rparr>)"
proof -
  let ?cm1 = "cm\<lparr>robot := step (time_step cm) (robot cm)\<rparr>"
  let ?batch = "queue (robot cm) @ medium (robot cm) (ticks (robot cm))"
  have q: "queue (robot ?cm1) = ?batch @ []"
    by (simp add: step_def)
  have ok: "\<forall>g\<in>set ?batch.
      \<not> isl (consider_frame (robot_name (robot ?cm1)) (max_send_counter ?cm1) g)"
    using assms by (simp only: consider_frame_no_error)
  have "receive_message ins cm = drain_loop ins (length ?batch) ?cm1"
    by (simp add: receive_message_def getQueueLength_def step_def Let_def)
  also note drain_loop_ok [OF q ok, of ins]
  finally show ?thesis by (simp add: step_def)
qed

lemma receive_message_error:
  assumes "queue (robot cm) @ medium (robot cm) (ticks (robot cm)) = pre @ f # post"
    and "\<forall>g\<in>set pre. g = [] \<or> (\<exists>m. parse_frame g = Inr m)"
    and "f \<noteq> []" and "parse_frame f = Inl e"
  shows "receive_message ins cm =
     (Inl e, cm\<lparr>robot := (step (time_step cm) (robot cm))\<lparr>queue := post,
        list_messages := foldl (\<lambda>l m. ins m l) (list_messages (robot cm))
          (accepted (robot_name (robot cm)) (max_send_counter cm) pre)\<rparr>\<rparr>)"
proof -
  let ?cm1 = "cm\<lparr>robot := step (time_step cm) (robot cm)\<rparr>"
  have q: "queue (robot ?cm1) = pre @ f # post"
    using assms(1) by (simp add: step_def)
  have ok: "\<forall>g\<in>set pre.
      \<not> isl (consider_frame (robot_name (robot ?cm1)) (max_send_counter ?cm1) g)"
    using assms(2) by (simp only: consider_frame_no_error)
  have bad: "consider_frame (robot_name (robot ?cm1)) (max_send_counter ?cm1) f = Inl e"
    using assms(3,4) by (rule consider_frame_error)
  have "getQueueLength (robot ?cm1) = length pre + Suc (length post)"
    using q by (simp add: getQueueLength_def)
  then have "receive_message ins cm = drain_loop ins (length pre + Suc (length post)) ?cm1"
    by (simp add: receive_message_def Let_def)
  also note drain_loop_error [OF q ok bad, of ins "length post"]
  finally show ?thesis by (simp add: step_def)
qed

lemma drain_loop_clock:
  "ticks (robot (snd (drain_loop ins n cm))) = ticks (robot cm) \<and>
   sim_time (robot (snd (drain_loop ins n cm))) = sim_time (robot cm)"
  by (induction ins n cm rule: drain_loop.induct)
     (auto simp: Let_def nextPacket_def robot_append_def split: sum.splits option.splits)

subsection \<open>Clearing and sending\<close>

lemma drain_queue_eq: "drain_queue r = r\<lparr>queue := []\<rparr>"
proof (induction r rule: drain_queue.induct)
  case (1 r)
  show ?case
  proof (cases "queue r")
    case Nil
    then show ?thesis by (subst drain_queue.simps) (simp add: getQueueLength_def)
  next
    case (Cons f fs)
    then have "drain_queue r = drain_queue (nextPacket r)"
      by (subst drain_queue.simps) (simp add: getQueueLength_def)
    also have "\<dots> = (nextPacket r)\<lparr>queue := []\<rparr>"
      using Cons by (intro 1) (simp add: getQueueLength_def)
    finally show ?thesis by (simp add: nextPacket_def)
  qed
qed

lemma clear_messages_eq:
  "clear_messages cm = cm\<lparr>robot := (robot cm)\<lparr>queue := [], list_messages := []\<rparr>\<rparr>"
  by (simp add: clear_messages_def drain_queue_eq)

lemma send_message_in_range:
  assumes "\<bar>send_counter m + 1\<bar> < 10 ^ int_max_str_digits"
  shows "send_message fmt cm m =
     (Inr (), m, cm\<lparr>robot := step (time_step cm)
        (emitter_send (id_sender m @ '';'' @ fmt (message_type m) @ '';'' @
           int_decimal (send_counter m + 1) @ '';'' @ payload m @ '';'' @ recipient m)
           (robot cm))\<rparr>)"
  by (simp add: send_message_def outgoing_msg_in_range [OF assms])

lemma send_message_beyond:
  assumes "10 ^ int_max_str_digits \<le> \<bar>send_counter m + 1\<bar>"
  shows "send_message fmt cm m = (Inl digits_limit_error, m, cm)"
  by (simp add: send_message_def outgoing_msg_beyond [OF assms])

lemma send_each_in_range:
  assumes "\<bar>counter + 1\<bar> < 10 ^ int_max_str_digits"
  shows "fst (send_each fmt sender mtype counter pl peers cm) = Inr () \<and>
     emitted (robot (snd (send_each fmt sender mtype counter pl peers cm))) =
       emitted (robot cm) @
         map (\<lambda>peer. sender @ '';'' @ fmt mtype @ '';'' @ int_decimal (counter + 1) @ '';'' @
                     pl @ '';'' @ peer) peers"
proof (induction peers arbitrary: cm)
  case Nil
  then show ?case by simp
next
  case (Cons peer peers)
  let ?msg = "\<lparr>id_sender = sender, message_type = mtype, send_counter = counter,
      payload = pl, recipient = peer\<rparr>"
  have "\<bar>send_counter ?msg + 1\<bar> < 10 ^ int_max_str_digits"
    using assms by simp
  from send_message_in_range [OF this, of fmt cm] Cons.IH
  show ?case by (simp add: step_def emitter_send_def)
qed

lemma send_each_beyond:
  assumes "10 ^ int_max_str_digits \<le> \<bar>counter + 1\<bar>"
  shows "send_each fmt sender mtype counter pl (peer # peers) cm = (Inl digits_limit_error, cm)"
proof -
  let ?msg = "\<lparr>id_sender = sender, message_type = mtype, send_counter = counter,
      payload = pl, recipient = peer\<rparr>"
  have "10 ^ int_max_str_digits \<le> \<bar>send_counter ?msg + 1\<bar>"
    using assms by simp
  from send_message_beyond [OF this, of fmt cm]
  show ?thesis by simp
qed

subsection \<open>Evaluating concrete frames\<close>

lemmas frame_eval = parse_frame_def py_int_def strip_spaces_def unsigned_literal_def
  is_digit_def digit_value_def int_space_def invalid_format_def int_max_str_digits_def

lemma int_decimal_1: "int_decimal 1 = ''1''"
  by code_simp

lemma int_decimal_5: "int_decimal 5 = ''5''"
  by code_simp

lemma one_in_range: "(1::int) < 10 ^ int_max_str_digits"
  using one_less_power [of "10::int" int_max_str_digits] int_max_str_digits_pos by simp

lemma five_in_range: "(5::int) < 10 ^ int_max_str_digits"
proof -
  have "(5::int) < 10 ^ 1" by simp
  also have "(10::int) ^ 1 \<le> 10 ^ int_max_str_digits"
    using int_max_str_digits_pos by (intro power_increasing) simp_all
  finally show ?thesis .
qed

section \<open>The claims\<close>

text \<open>
  C1. A frame that \<^verbatim>\<open>receive_message\<close> has parsed is accepted if and only if its recipient
  is empty (whatever its counter), or its recipient is the name of the receiving robot and
  its counter is below 5. Accepted means handed to \<^verbatim>\<open>robot.append\<close>: in a batch whose
  other frames are empty or well formed, the frame adds its message to the list at its
  place in the batch, and adds nothing otherwise.
\<close>

theorem receive_message_acceptance_rule:
  assumes "max_send_counter cm = 5"
    and "queue (robot cm) @ medium (robot cm) (ticks (robot cm)) = pre @ f # post"
    and "\<forall>g\<in>set (pre @ post). g = [] \<or> (\<exists>m'. parse_frame g = Inr m')"
    and "f \<noteq> []"
    and "parse_frame f = Inr m"
  shows "(consider_frame (robot_name (robot cm)) (max_send_counter cm) f = Inr (Some m)) =
           (recipient m = [] \<or> recipient m = robot_name (robot cm) \<and> send_counter m < 5) \<and>
         (consider_frame (robot_name (robot cm)) (max_send_counter cm) f = Inr None) =
           (\<not> (recipient m = [] \<or> recipient m = robot_name (robot cm) \<and> send_counter m < 5)) \<and>
         list_messages (robot (snd (receive_message ins cm))) =
           foldl (\<lambda>l x. ins x l) (list_messages (robot cm))
             (accepted (robot_name (robot cm)) 5 pre @
              (if recipient m = [] \<or> recipient m = robot_name (robot cm) \<and> send_counter m < 5
               then [m] else []) @
              accepted (robot_name (robot cm)) 5 post)"
proof -
  let ?me = "robot_name (robot cm)"
  let ?cond = "recipient m = [] \<or> recipient m = ?me \<and> send_counter m < 5"
  have dec: "consider_frame ?me 5 f = (if ?cond then Inr (Some m) else Inr None)"
    using assms(4,5) by (simp add: consider_frame_def)
  have all: "\<forall>g\<in>set (queue (robot cm) @ medium (robot cm) (ticks (robot cm))).
      g = [] \<or> (\<exists>m'. parse_frame g = Inr m')"
    using assms(2,3,5) by auto
  have acc: "accepted ?me 5 (pre @ f # post) =
      accepted ?me 5 pre @ (if ?cond then [m] else []) @ accepted ?me 5 post"
    by (simp add: accepted_append accepted_Cons dec)
  show ?thesis
    using dec acc assms(1,2) by (simp add: receive_message_ok [OF all])
qed

text \<open>On the robot \<open>R\<close>: a broadcast with counter 1000 is accepted, a frame for \<open>R\<close> with
  counter 5 is discarded, one with counter 4 is accepted.\<close>

theorem receive_message_acceptance_rule_witness:
  "consider_frame ''R'' 5 ''s;T;1000;p;'' =
     Inr (Some \<lparr>id_sender = ''s'', message_type = ''T'', send_counter = 1000,
                payload = ''p'', recipient = []\<rparr>) \<and>
   consider_frame ''R'' 5 ''s;T;5;p;R'' = Inr None \<and>
   consider_frame ''R'' 5 ''s;T;4;p;R'' =
     Inr (Some \<lparr>id_sender = ''s'', message_type = ''T'', send_counter = 4,
                payload = ''p'', recipient = ''R''\<rparr>) \<and>
   list_messages (robot (snd (receive_message (\<lambda>m l. l @ [m])
      (CommunicationManager
        \<lparr>robot_name = ''R'', known_robots = [], list_messages = [], basic_time_step = 32,
         emitted = [], queue = [''s;T;1000;p;'', ''s;T;5;p;R'', ''s;T;4;p;R''],
         ticks = 0, sim_time = 0, medium = (\<lambda>k. [])\<rparr>)))) =
     [\<lparr>id_sender = ''s'', message_type = ''T'', send_counter = 1000, payload = ''p'', recipient = []\<rparr>,
      \<lparr>id_sender = ''s'', message_type = ''T'', send_counter = 4, payload = ''p'', recipient = ''R''\<rparr>]"
proof -
  let ?f1 = "''s;T;1000;p;''" and ?f2 = "''s;T;5;p;R''" and ?f3 = "''s;T;4;p;R''"
  let ?cm = "CommunicationManager
        \<lparr>robot_name = ''R'', known_robots = [], list_messages = [], basic_time_step = 32,
         emitted = [], queue = [?f1, ?f2, ?f3],
         ticks = 0, sim_time = 0, medium = (\<lambda>k. [])\<rparr>"
  have p1: "parse_frame ?f1 = Inr \<lparr>id_sender = ''s'', message_type = ''T'',
      send_counter = 1000, payload = ''p'', recipient = []\<rparr>"
    by (simp add: frame_eval)
  have p2: "parse_frame ?f2 = Inr \<lparr>id_sender = ''s'', message_type = ''T'',
      send_counter = 5, payload = ''p'', recipient = ''R''\<rparr>"
    by (simp add: frame_eval)
  have p3: "parse_frame ?f3 = Inr \<lparr>id_sender = ''s'', message_type = ''T'',
      send_counter = 4, payload = ''p'', recipient = ''R''\<rparr>"
    by (simp add: frame_eval)
  have mx: "max_send_counter ?cm = 5"
    by (simp add: CommunicationManager_def)
  have a: "consider_frame ''R'' 5 ?f1 = Inr (Some \<lparr>id_sender = ''s'', message_type = ''T'',
      send_counter = 1000, payload = ''p'', recipient = []\<rparr>)"
    using receive_message_acceptance_rule [OF mx _ _ _ p1, of "[]" "[?f2, ?f3]"] p2 p3
    by (simp add: CommunicationManager_def)
  have b: "consider_frame ''R'' 5 ?f2 = Inr None"
    using receive_message_acceptance_rule [OF mx _ _ _ p2, of "[?f1]" "[?f3]"] p1 p3
    by (simp add: CommunicationManager_def)
  have c: "consider_frame ''R'' 5 ?f3 = Inr (Some \<lparr>id_sender = ''s'', message_type = ''T'',
      send_counter = 4, payload = ''p'', recipient = ''R''\<rparr>)"
    using receive_message_acceptance_rule [OF mx _ _ _ p3, of "[?f1, ?f2]" "[]"] p1 p2
    by (simp add: CommunicationManager_def)
  have d: "list_messages (robot (snd (receive_message (\<lambda>m l. l @ [m]) ?cm))) =
     [\<lparr>id_sender = ''s'', message_type = ''T'', send_counter = 1000, payload = ''p'', recipient = []\<rparr>,
      \<lparr>id_sender = ''s'', message_type = ''T'', send_counter = 4, payload = ''p'', recipient = ''R''\<rparr>]"
    using receive_message_acceptance_rule [OF mx _ _ _ p2, of "[?f1]" "[?f3]" "\<lambda>m l. l @ [m]"] p1 p3 a c
    by (simp add: CommunicationManager_def accepted_def)
  from a b c d show ?thesis by simp
qed

text \<open>
  C2. While \<^verbatim>\<open>receive_message\<close> drains its batch, a frame that is not empty and does not
  split into exactly five parts, or whose third part \<^verbatim>\<open>int\<close> refuses, makes the call fail
  with the error whose text quotes the raw frame (the frames before it being empty or well
  formed, so that the call gets as far as this one). Only the frames before it have
  reached the list of messages; the frames behind it are still in the queue, unread.
\<close>

theorem malformed_frame_raises:
  assumes "queue (robot cm) @ medium (robot cm) (ticks (robot cm)) = pre @ f # post"
    and "\<forall>g\<in>set pre. g = [] \<or> (\<exists>m. parse_frame g = Inr m)"
    and "f \<noteq> []"
    and "length (split_on CHR '';'' f) \<noteq> 5 \<or> py_int (split_on CHR '';'' f ! 2) = None"
  shows "fst (receive_message ins cm) =
           Inl (ValueError (''Invalid message format: '' @ [CHR 0x27] @ f @ [CHR 0x27])) \<and>
         list_messages (robot (snd (receive_message ins cm))) =
           foldl (\<lambda>l x. ins x l) (list_messages (robot cm))
             (accepted (robot_name (robot cm)) (max_send_counter cm) pre) \<and>
         queue (robot (snd (receive_message ins cm))) = post"
proof -
  have "parse_frame f = Inl (invalid_format f)"
    using assms(4) by (rule parse_frame_malformed)
  from receive_message_error [OF assms(1,2,3) this, of ins]
  show ?thesis by (simp add: invalid_format_def)
qed

theorem malformed_frame_raises_witness:
  "fst (receive_message (\<lambda>m l. l @ [m])
      (CommunicationManager
        \<lparr>robot_name = ''R'', known_robots = [], list_messages = [], basic_time_step = 32,
         emitted = [], queue = [''s;T;1;p;'', ''a;b;c'', ''s;T;2;p;''],
         ticks = 0, sim_time = 0, medium = (\<lambda>k. [])\<rparr>)) =
     Inl (ValueError (''Invalid message format: '' @ [CHR 0x27] @ ''a;b;c'' @ [CHR 0x27])) \<and>
   list_messages (robot (snd (receive_message (\<lambda>m l. l @ [m])
      (CommunicationManager
        \<lparr>robot_name = ''R'', known_robots = [], list_messages = [], basic_time_step = 32,
         emitted = [], queue = [''s;T;1;p;'', ''a;b;c'', ''s;T;2;p;''],
         ticks = 0, sim_time = 0, medium = (\<lambda>k. [])\<rparr>)))) =
     [\<lparr>id_sender = ''s'', message_type = ''T'', send_counter = 1, payload = ''p'', recipient = []\<rparr>] \<and>
   queue (robot (snd (receive_message (\<lambda>m l. l @ [m])
      (CommunicationManager
        \<lparr>robot_name = ''R'', known_robots = [], list_messages = [], basic_time_step = 32,
         emitted = [], queue = [''s;T;1;p;'', ''a;b;c'', ''s;T;2;p;''],
         ticks = 0, sim_time = 0, medium = (\<lambda>k. [])\<rparr>)))) = [''s;T;2;p;'']"
proof -
  let ?cm = "CommunicationManager
        \<lparr>robot_name = ''R'', known_robots = [], list_messages = [], basic_time_step = 32,
         emitted = [], queue = [''s;T;1;p;'', ''a;b;c'', ''s;T;2;p;''],
         ticks = 0, sim_time = 0, medium = (\<lambda>k. [])\<rparr>"
  have p1: "parse_frame ''s;T;1;p;'' = Inr \<lparr>id_sender = ''s'', message_type = ''T'',
      send_counter = 1, payload = ''p'', recipient = []\<rparr>"
    by (simp add: frame_eval)
  have batch: "queue (robot ?cm) @ medium (robot ?cm) (ticks (robot ?cm)) =
      [''s;T;1;p;''] @ ''a;b;c'' # [''s;T;2;p;'']"
    by (simp add: CommunicationManager_def)
  have pre: "\<forall>g\<in>set [''s;T;1;p;'']. g = [] \<or> (\<exists>m. parse_frame g = Inr m)"
    by (simp add: p1)
  have bad: "length (split_on CHR '';'' ''a;b;c'') \<noteq> 5 \<or>
      py_int (split_on CHR '';'' ''a;b;c'' ! 2) = None"
    by simp
  from malformed_frame_raises [OF batch pre _ bad, of "\<lambda>m l. l @ [m]"]
  show ?thesis
    by (simp add: CommunicationManager_def accepted_def consider_frame_def p1)
qed

text \<open>
  C3. For a message whose sender, payload, recipient and rendered message type hold no
  semicolon and whose counter \<open>c\<close> is not negative, with \<open>c + 1\<close> of at most 4300 digits,
  \<^verbatim>\<open>send_message\<close> emits a frame, and parsing it gives the counter \<open>c + 1\<close>, the sender, the
  payload and the recipient of the message, and as message type the string that \<open>fmt\<close>
  renders of the message type of the message.
\<close>

theorem send_then_parse_roundtrip:
  assumes "CHR '';'' \<notin> set (id_sender m)"
    and "CHR '';'' \<notin> set (fmt (message_type m))"
    and "CHR '';'' \<notin> set (payload m)"
    and "CHR '';'' \<notin> set (recipient m)"
    and "0 \<le> send_counter m"
    and "send_counter m + 1 < 10 ^ int_max_str_digits"
  shows "fst (send_message fmt cm m) = Inr () \<and>
         parse_frame (last (emitted (robot (snd (snd (send_message fmt cm m)))))) =
           Inr \<lparr>id_sender = id_sender m, message_type = fmt (message_type m),
                send_counter = send_counter m + 1, payload = payload m,
                recipient = recipient m\<rparr>"
proof -
  have range: "\<bar>send_counter m + 1\<bar> < 10 ^ int_max_str_digits"
    using assms(5,6) by simp
  have "parse_frame (id_sender m @ '';'' @ fmt (message_type m) @ '';'' @
          int_decimal (send_counter m + 1) @ '';'' @ payload m @ '';'' @ recipient m) =
      Inr \<lparr>id_sender = id_sender m, message_type = fmt (message_type m),
           send_counter = send_counter m + 1, payload = payload m, recipient = recipient m\<rparr>"
    using assms(1-4) outgoing_msg_in_range [OF range, of fmt] by (intro parse_outgoing_msg)
  then show ?thesis
    by (simp add: send_message_in_range [OF range] step_def emitter_send_def)
qed

theorem send_then_parse_roundtrip_witness:
  "parse_frame (last (emitted (robot (snd (snd (send_message (\<lambda>t. t)
      (CommunicationManager
        \<lparr>robot_name = ''A'', known_robots = [''B'', ''C''], list_messages = [],
         basic_time_step = 32, emitted = [], queue = [], ticks = 7, sim_time = 224,
         medium = (\<lambda>k. [])\<rparr>)
      \<lparr>id_sender = ''A'', message_type = ''T'', send_counter = 0, payload = ''hello'',
       recipient = ''B''\<rparr>)))))) =
     Inr \<lparr>id_sender = ''A'', message_type = ''T'', send_counter = 1, payload = ''hello'',
          recipient = ''B''\<rparr>"
  using send_then_parse_roundtrip [where fmt = "\<lambda>t. t"
      and m = "\<lparr>id_sender = ''A'', message_type = ''T'', send_counter = 0, payload = ''hello'',
        recipient = ''B''\<rparr>"
      and cm = "CommunicationManager
        \<lparr>robot_name = ''A'', known_robots = [''B'', ''C''], list_messages = [],
         basic_time_step = 32, emitted = [], queue = [], ticks = 7, sim_time = 224,
         medium = (\<lambda>k. [])\<rparr>"]
    one_in_range
  by simp

text \<open>The claim fails in two ways. A message with counter \<open>10 ^ 4300 - 1\<close> has no
  semicolon and a counter that is not negative, but \<^verbatim>\<open>format\<close> raises on \<open>10 ^ 4300\<close>: no
  frame exists to parse, and the state is untouched. And the message type does not come
  back as it was: the string \<open>1\<close> and the integer \<open>1\<close> as message types give the same frame
  and hence the same parsed message.\<close>

theorem send_then_parse_roundtrip_counterexample:
  "send_message (\<lambda>t. t) (CommunicationManager
        \<lparr>robot_name = ''A'', known_robots = [''B'', ''C''], list_messages = [],
         basic_time_step = 32, emitted = [], queue = [], ticks = 7, sim_time = 224,
         medium = (\<lambda>k. [])\<rparr>) \<lparr>id_sender = ''A'', message_type = ''T'',
       send_counter = 10 ^ int_max_str_digits - 1, payload = ''p'', recipient = ''B''\<rparr> =
     (Inl digits_limit_error, \<lparr>id_sender = ''A'', message_type = ''T'',
       send_counter = 10 ^ int_max_str_digits - 1, payload = ''p'', recipient = ''B''\<rparr>, CommunicationManager
        \<lparr>robot_name = ''A'', known_robots = [''B'', ''C''], list_messages = [],
         basic_time_step = 32, emitted = [], queue = [], ticks = 7, sim_time = 224,
         medium = (\<lambda>k. [])\<rparr>) \<and>
   parse_frame (last (emitted (robot (snd (snd (send_message
       (\<lambda>v. case v of Inl s \<Rightarrow> s | Inr i \<Rightarrow> int_decimal i)
       (CommunicationManager
        \<lparr>robot_name = ''A'', known_robots = [''B'', ''C''], list_messages = [],
         basic_time_step = 32, emitted = [], queue = [], ticks = 7, sim_time = 224,
         medium = (\<lambda>k. [])\<rparr>)
       \<lparr>id_sender = ''A'', message_type = Inl ''1'', send_counter = 0, payload = ''p'',
        recipient = ''B''\<rparr>)))))) =
   parse_frame (last (emitted (robot (snd (snd (send_message
       (\<lambda>v. case v of Inl s \<Rightarrow> s | Inr i \<Rightarrow> int_decimal i)
       (CommunicationManager
        \<lparr>robot_name = ''A'', known_robots = [''B'', ''C''], list_messages = [],
         basic_time_step = 32, emitted = [], queue = [], ticks = 7, sim_time = 224,
         medium = (\<lambda>k. [])\<rparr>)
       \<lparr>id_sender = ''A'', message_type = Inr 1, send_counter = 0, payload = ''p'',
        recipient = ''B''\<rparr>))))))"
  by (simp add: send_message_beyond send_message_in_range one_in_range int_decimal_1)

text \<open>
  C4. \<^verbatim>\<open>send_message\<close> never changes the message it is given. When the counter plus one
  has at most 4300 digits, it hands exactly one frame to the emitter, and the third part
  of that frame is the decimal form of the counter plus one, which reads back as that
  number. When it has more, \<^verbatim>\<open>format\<close> raises and nothing is sent.
\<close>

theorem send_message_increments_on_the_wire:
  "fst (snd (send_message fmt cm m)) = m \<and>
   (\<bar>send_counter m + 1\<bar> < 10 ^ int_max_str_digits \<longrightarrow>
      fst (send_message fmt cm m) = Inr () \<and>
      emitted (robot (snd (snd (send_message fmt cm m)))) =
        emitted (robot cm) @ [id_sender m @ '';'' @ fmt (message_type m) @ '';'' @
          int_decimal (send_counter m + 1) @ '';'' @ payload m @ '';'' @ recipient m] \<and>
      py_int (int_decimal (send_counter m + 1)) = Some (send_counter m + 1)) \<and>
   (10 ^ int_max_str_digits \<le> \<bar>send_counter m + 1\<bar> \<longrightarrow>
      send_message fmt cm m = (Inl digits_limit_error, m, cm))"
proof (cases "\<bar>send_counter m + 1\<bar> < 10 ^ int_max_str_digits")
  case True
  from py_str_int_in_range(2) [OF True]
  have "py_int (int_decimal (send_counter m + 1)) = Some (send_counter m + 1)"
    by (rule py_int_int_decimal)
  with True show ?thesis
    by (simp add: send_message_in_range step_def emitter_send_def)
next
  case False
  then have "10 ^ int_max_str_digits \<le> \<bar>send_counter m + 1\<bar>" by simp
  with False show ?thesis
    by (simp add: send_message_beyond)
qed

text \<open>A message with counter 4 goes out with counter 5 and is returned as it was.\<close>

theorem send_message_increments_on_the_wire_witness:
  "fst (snd (send_message (\<lambda>t. t) (CommunicationManager
        \<lparr>robot_name = ''A'', known_robots = [''B'', ''C''], list_messages = [],
         basic_time_step = 32, emitted = [], queue = [], ticks = 7, sim_time = 224,
         medium = (\<lambda>k. [])\<rparr>)
      \<lparr>id_sender = ''A'', message_type = ''T'', send_counter = 4, payload = ''hello'',
       recipient = ''B''\<rparr>)) =
     \<lparr>id_sender = ''A'', message_type = ''T'', send_counter = 4, payload = ''hello'',
      recipient = ''B''\<rparr> \<and>
   fst (send_message (\<lambda>t. t) (CommunicationManager
        \<lparr>robot_name = ''A'', known_robots = [''B'', ''C''], list_messages = [],
         basic_time_step = 32, emitted = [], queue = [], ticks = 7, sim_time = 224,
         medium = (\<lambda>k. [])\<rparr>)
      \<lparr>id_sender = ''A'', message_type = ''T'', send_counter = 4, payload = ''hello'',
       recipient = ''B''\<rparr>) = Inr () \<and>
   emitted (robot (snd (snd (send_message (\<lambda>t. t) (CommunicationManager
        \<lparr>robot_name = ''A'', known_robots = [''B'', ''C''], list_messages = [],
         basic_time_step = 32, emitted = [], queue = [], ticks = 7, sim_time = 224,
         medium = (\<lambda>k. [])\<rparr>)
      \<lparr>id_sender = ''A'', message_type = ''T'', send_counter = 4, payload = ''hello'',
       recipient = ''B''\<rparr>)))) = [''A;T;5;hello;B'']"
proof -
  note small = five_in_range
  from send_message_increments_on_the_wire [where fmt = "\<lambda>t. t"
      and cm = "CommunicationManager
        \<lparr>robot_name = ''A'', known_robots = [''B'', ''C''], list_messages = [],
         basic_time_step = 32, emitted = [], queue = [], ticks = 7, sim_time = 224,
         medium = (\<lambda>k. [])\<rparr>"
      and m = "\<lparr>id_sender = ''A'', message_type = ''T'', send_counter = 4, payload = ''hello'',
       recipient = ''B''\<rparr>"] small
  show ?thesis
    by (simp add: CommunicationManager_def int_decimal_5)
qed

text \<open>With counter \<open>10 ^ 4300 - 1\<close> the call raises and the emitter has received nothing.\<close>

theorem send_message_increments_on_the_wire_counterexample:
  "fst (send_message (\<lambda>t. t) (CommunicationManager
        \<lparr>robot_name = ''A'', known_robots = [''B'', ''C''], list_messages = [],
         basic_time_step = 32, emitted = [], queue = [], ticks = 7, sim_time = 224,
         medium = (\<lambda>k. [])\<rparr>) \<lparr>id_sender = ''A'', message_type = ''T'',
       send_counter = 10 ^ int_max_str_digits - 1, payload = ''p'', recipient = ''B''\<rparr>) = Inl digits_limit_error \<and>
   emitted (robot (snd (snd (send_message (\<lambda>t. t) (CommunicationManager
        \<lparr>robot_name = ''A'', known_robots = [''B'', ''C''], list_messages = [],
         basic_time_step = 32, emitted = [], queue = [], ticks = 7, sim_time = 224,
         medium = (\<lambda>k. [])\<rparr>) \<lparr>id_sender = ''A'', message_type = ''T'',
       send_counter = 10 ^ int_max_str_digits - 1, payload = ''p'', recipient = ''B''\<rparr>)))) = []"
  by (simp add: send_message_beyond CommunicationManager_def)

text \<open>
  C5. When the counter plus one has at most 4300 digits, \<^verbatim>\<open>send_message_all\<close> emits one
  frame for each known robot, in the order of the list: the frames have the same sender,
  message type, counter and payload, and the recipient of each is the robot it is emitted
  for. When it has more and there is a known robot, the first \<^verbatim>\<open>send_message\<close> raises
  and nothing is emitted.
\<close>

theorem send_message_all_fan_out:
  "(\<bar>counter + 1\<bar> < 10 ^ int_max_str_digits \<longrightarrow>
      fst (send_message_all fmt cm sender mtype counter pl) = Inr () \<and>
      emitted (robot (snd (send_message_all fmt cm sender mtype counter pl))) =
        emitted (robot cm) @
          map (\<lambda>peer. sender @ '';'' @ fmt mtype @ '';'' @ int_decimal (counter + 1) @ '';'' @
                      pl @ '';'' @ peer)
            (known_robots (robot cm)) \<and>
      length (emitted (robot (snd (send_message_all fmt cm sender mtype counter pl)))) =
        length (emitted (robot cm)) + length (known_robots (robot cm))) \<and>
   (10 ^ int_max_str_digits \<le> \<bar>counter + 1\<bar> \<and> known_robots (robot cm) \<noteq> [] \<longrightarrow>
      send_message_all fmt cm sender mtype counter pl = (Inl digits_limit_error, cm))"
proof -
  have "send_message_all fmt cm sender mtype counter pl = (Inl digits_limit_error, cm)"
    if "10 ^ int_max_str_digits \<le> \<bar>counter + 1\<bar>" and "known_robots (robot cm) \<noteq> []"
  proof -
    from that(2) obtain peer peers where "known_robots (robot cm) = peer # peers"
      by (cases "known_robots (robot cm)") auto
    with that(1) show ?thesis
      by (simp add: send_message_all_def send_each_beyond del: send_each.simps)
  qed
  then show ?thesis
    by (simp add: send_message_all_def send_each_in_range)
qed

text \<open>Two known robots, two frames.\<close>

theorem send_message_all_fan_out_witness:
  "fst (send_message_all (\<lambda>t. t) (CommunicationManager
        \<lparr>robot_name = ''A'', known_robots = [''B'', ''C''], list_messages = [],
         basic_time_step = 32, emitted = [], queue = [], ticks = 7, sim_time = 224,
         medium = (\<lambda>k. [])\<rparr>) ''A'' ''T'' 0 ''go'') = Inr () \<and>
   emitted (robot (snd (send_message_all (\<lambda>t. t) (CommunicationManager
        \<lparr>robot_name = ''A'', known_robots = [''B'', ''C''], list_messages = [],
         basic_time_step = 32, emitted = [], queue = [], ticks = 7, sim_time = 224,
         medium = (\<lambda>k. [])\<rparr>)
      ''A'' ''T'' 0 ''go''))) = [''A;T;1;go;B'', ''A;T;1;go;C'']"
proof -
  note small = one_in_range
  from send_message_all_fan_out [where fmt = "\<lambda>t. t" and sender = "''A''" and mtype = "''T''"
      and counter = 0 and pl = "''go''" and cm = "CommunicationManager
        \<lparr>robot_name = ''A'', known_robots = [''B'', ''C''], list_messages = [],
         basic_time_step = 32, emitted = [], queue = [], ticks = 7, sim_time = 224,
         medium = (\<lambda>k. [])\<rparr>"] small
  show ?thesis
    by (simp add: CommunicationManager_def int_decimal_1)
qed

text \<open>With counter \<open>10 ^ 4300 - 1\<close> and two known robots the call raises and no frame has
  been emitted.\<close>

theorem send_message_all_fan_out_counterexample:
  "length (known_robots (robot (CommunicationManager
        \<lparr>robot_name = ''A'', known_robots = [''B'', ''C''], list_messages = [],
         basic_time_step = 32, emitted = [], queue = [], ticks = 7, sim_time = 224,
         medium = (\<lambda>k. [])\<rparr>))) = 2 \<and>
   fst (send_message_all (\<lambda>t. t) (CommunicationManager
        \<lparr>robot_name = ''A'', known_robots = [''B'', ''C''], list_messages = [],
         basic_time_step = 32, emitted = [], queue = [], ticks = 7, sim_time = 224,
         medium = (\<lambda>k. [])\<rparr>) ''A'' ''T''
      (10 ^ int_max_str_digits - 1) ''go'') = Inl digits_limit_error \<and>
   emitted (robot (snd (send_message_all (\<lambda>t. t) (CommunicationManager
        \<lparr>robot_name = ''A'', known_robots = [''B'', ''C''], list_messages = [],
         basic_time_step = 32, emitted = [], queue = [], ticks = 7, sim_time = 224,
         medium = (\<lambda>k. [])\<rparr>) ''A'' ''T''
      (10 ^ int_max_str_digits - 1) ''go''))) = []"
  by (simp add: send_message_all_def send_each_beyond CommunicationManager_def
      del: send_each.simps)

text \<open>
  C6. After \<^verbatim>\<open>clear_messages\<close> the list of messages and the receiver queue are empty, and
  nothing else has changed: no frame was parsed, none can raise. What the next
  \<^verbatim>\<open>receive_message\<close> finds in the queue is what arrives during its own tick, so that call
  does what it would have done on an empty queue and an empty list.
\<close>

theorem clear_messages_discards:
  "queue (robot (clear_messages cm)) = [] \<and>
   list_messages (robot (clear_messages cm)) = [] \<and>
   clear_messages cm = cm\<lparr>robot := (robot cm)\<lparr>queue := [], list_messages := []\<rparr>\<rparr> \<and>
   queue (robot (clear_messages cm)) @
     medium (robot (clear_messages cm)) (ticks (robot (clear_messages cm))) =
     medium (robot cm) (ticks (robot cm)) \<and>
   receive_message ins (clear_messages cm) =
     receive_message ins (cm\<lparr>robot := (robot cm)\<lparr>queue := [], list_messages := []\<rparr>\<rparr>)"
  by (simp add: clear_messages_eq)

text \<open>A malformed frame and a broadcast wait in the queue; after clearing, the next call
  delivers only the frame that arrives during its tick.\<close>

theorem clear_messages_discards_witness:
  "receive_message (\<lambda>m l. l @ [m])
     (clear_messages
       (CommunicationManager
         \<lparr>robot_name = ''R'', known_robots = [],
          list_messages = [\<lparr>id_sender = ''o'', message_type = ''T'', send_counter = 1,
                            payload = ''old'', recipient = []\<rparr>],
          basic_time_step = 32, emitted = [], queue = [''a;b;c'', ''s;T;1;p;''],
          ticks = 0, sim_time = 0,
          medium = (\<lambda>k. if k = 0 then [''t;U;3;q;''] else [])\<rparr>)) =
     (Inr (),
      \<lparr>robot =
        \<lparr>robot_name = ''R'', known_robots = [],
         list_messages = [\<lparr>id_sender = ''t'', message_type = ''U'', send_counter = 3,
                           payload = ''q'', recipient = []\<rparr>],
         basic_time_step = 32, emitted = [], queue = [],
         ticks = 1, sim_time = 32, medium = (\<lambda>k. if k = 0 then [''t;U;3;q;''] else [])\<rparr>,
       time_step = 32, max_send_counter = 5\<rparr>)"
proof -
  have p: "parse_frame ''t;U;3;q;'' = Inr \<lparr>id_sender = ''t'', message_type = ''U'',
      send_counter = 3, payload = ''q'', recipient = []\<rparr>"
    by (simp add: frame_eval)
  from clear_messages_discards [where ins = "\<lambda>m l. l @ [m]" and cm = "CommunicationManager
         \<lparr>robot_name = ''R'', known_robots = [],
          list_messages = [\<lparr>id_sender = ''o'', message_type = ''T'', send_counter = 1,
                            payload = ''old'', recipient = []\<rparr>],
          basic_time_step = 32, emitted = [], queue = [''a;b;c'', ''s;T;1;p;''],
          ticks = 0, sim_time = 0,
          medium = (\<lambda>k. if k = 0 then [''t;U;3;q;''] else [])\<rparr>"]
  show ?thesis
    by (simp add: CommunicationManager_def receive_message_def Let_def step_def
        getQueueLength_def getString_def nextPacket_def robot_append_def consider_frame_def p)
qed

text \<open>
  C7. \<^verbatim>\<open>is_the_message_prioritary\<close> depends on its arguments only, and holds if and only
  if the rank of the message type of the message is strictly greater than the rank of
  the current task; with equal ranks it does not hold.
\<close>

theorem is_the_message_prioritary_strict:
  "is_the_message_prioritary priority str_msg str_task msg current_task =
     (priority (str_task current_task) < priority (str_msg (message_type msg))) \<and>
   (priority (str_msg (message_type msg)) = priority (str_task current_task) \<longrightarrow>
      \<not> is_the_message_prioritary priority str_msg str_task msg current_task)"
  by (simp add: is_the_message_prioritary_def)

theorem is_the_message_prioritary_strict_witness:
  "\<not> is_the_message_prioritary (length :: string \<Rightarrow> nat) (\<lambda>t. t) (\<lambda>t. t)
       \<lparr>id_sender = ''A'', message_type = ''ab'', send_counter = 0, payload = [],
        recipient = []\<rparr> ''cd'' \<and>
   is_the_message_prioritary (length :: string \<Rightarrow> nat) (\<lambda>t. t) (\<lambda>t. t)
       \<lparr>id_sender = ''A'', message_type = ''abc'', send_counter = 0, payload = [],
        recipient = []\<rparr> ''cd'' \<and>
   \<not> is_the_message_prioritary (length :: string \<Rightarrow> nat) (\<lambda>t. t) (\<lambda>t. t)
       \<lparr>id_sender = ''A'', message_type = ''cd'', send_counter = 0, payload = [],
        recipient = []\<rparr> ''abc''"
  using is_the_message_prioritary_strict [where priority = "length :: string \<Rightarrow> nat"
      and str_msg = "\<lambda>t. t" and str_task = "\<lambda>t. t" and current_task = "''cd''"
      and msg = "\<lparr>id_sender = ''A'', message_type = ''ab'', send_counter = 0, payload = [],
        recipient = []\<rparr>"]
    is_the_message_prioritary_strict [where priority = "length :: string \<Rightarrow> nat"
      and str_msg = "\<lambda>t. t" and str_task = "\<lambda>t. t" and current_task = "''cd''"
      and msg = "\<lparr>id_sender = ''A'', message_type = ''abc'', send_counter = 0, payload = [],
        recipient = []\<rparr>"]
    is_the_message_prioritary_strict [where priority = "length :: string \<Rightarrow> nat"
      and str_msg = "\<lambda>t. t" and str_task = "\<lambda>t. t" and current_task = "''abc''"
      and msg = "\<lparr>id_sender = ''A'', message_type = ''cd'', send_counter = 0, payload = [],
        recipient = []\<rparr>"]
  by simp

text \<open>
  C8. \<^verbatim>\<open>receive_message\<close> first lets one tick pass, then handles exactly the frames that
  are in the queue at that moment, those delivered during the tick included, each once
  and in queue order. An empty frame is taken from the queue like the others and adds
  nothing; the frames behind it are handled as usual.
\<close>

theorem receive_message_drains_batch:
  assumes "\<forall>g\<in>set (queue (robot cm) @ medium (robot cm) (ticks (robot cm))).
             g = [] \<or> (\<exists>m. parse_frame g = Inr m)"
  shows "receive_message ins cm =
           (Inr (), cm\<lparr>robot := (robot cm)\<lparr>queue := [],
              ticks := Suc (ticks (robot cm)),
              sim_time := sim_time (robot cm) + time_step cm,
              list_messages := foldl (\<lambda>l x. ins x l) (list_messages (robot cm))
                (accepted (robot_name (robot cm)) (max_send_counter cm)
                   (filter (\<lambda>g. g \<noteq> [])
                      (queue (robot cm) @ medium (robot cm) (ticks (robot cm)))))\<rparr>\<rparr>)"
  using receive_message_ok [OF assms, of ins]
  by (simp only: accepted_skip_empty) (simp add: step_def)

theorem receive_message_drains_batch_witness:
  "receive_message (\<lambda>m l. l @ [m])
      (CommunicationManager
        \<lparr>robot_name = ''R'', known_robots = [], list_messages = [], basic_time_step = 32,
         emitted = [], queue = [''s;T;1;p;'', [], ''s;T;2;p;R''],
         ticks = 0, sim_time = 0, medium = (\<lambda>k. if k = 0 then [''t;U;3;q;''] else [])\<rparr>) =
     (Inr (),
      \<lparr>robot =
        \<lparr>robot_name = ''R'', known_robots = [],
         list_messages =
           [\<lparr>id_sender = ''s'', message_type = ''T'', send_counter = 1, payload = ''p'', recipient = []\<rparr>,
            \<lparr>id_sender = ''s'', message_type = ''T'', send_counter = 2, payload = ''p'', recipient = ''R''\<rparr>,
            \<lparr>id_sender = ''t'', message_type = ''U'', send_counter = 3, payload = ''q'', recipient = []\<rparr>],
         basic_time_step = 32, emitted = [], queue = [],
         ticks = 1, sim_time = 32, medium = (\<lambda>k. if k = 0 then [''t;U;3;q;''] else [])\<rparr>,
       time_step = 32, max_send_counter = 5\<rparr>)"
proof -
  let ?cm = "CommunicationManager
        \<lparr>robot_name = ''R'', known_robots = [], list_messages = [], basic_time_step = 32,
         emitted = [], queue = [''s;T;1;p;'', [], ''s;T;2;p;R''],
         ticks = 0, sim_time = 0, medium = (\<lambda>k. if k = 0 then [''t;U;3;q;''] else [])\<rparr>"
  have p1: "parse_frame ''s;T;1;p;'' = Inr \<lparr>id_sender = ''s'', message_type = ''T'',
      send_counter = 1, payload = ''p'', recipient = []\<rparr>"
    by (simp add: frame_eval)
  have p2: "parse_frame ''s;T;2;p;R'' = Inr \<lparr>id_sender = ''s'', message_type = ''T'',
      send_counter = 2, payload = ''p'', recipient = ''R''\<rparr>"
    by (simp add: frame_eval)
  have p3: "parse_frame ''t;U;3;q;'' = Inr \<lparr>id_sender = ''t'', message_type = ''U'',
      send_counter = 3, payload = ''q'', recipient = []\<rparr>"
    by (simp add: frame_eval)
  have ok: "\<forall>g\<in>set (queue (robot ?cm) @ medium (robot ?cm) (ticks (robot ?cm))).
      g = [] \<or> (\<exists>m. parse_frame g = Inr m)"
    by (simp add: CommunicationManager_def p1 p2 p3)
  from receive_message_drains_batch [OF ok, of "\<lambda>m l. l @ [m]"]
  show ?thesis
    by (simp add: CommunicationManager_def accepted_def consider_frame_def p1 p2 p3)
qed

text \<open>
  C9. The failing call is not undone. The messages accepted from the frames before the bad
  one stay in the list; the bad frame itself has left the queue, since it was deleted
  before it was looked at; so the next call starts from the frames that were behind it,
  followed by what arrives during its own tick.
\<close>

theorem malformed_frame_not_atomic:
  assumes "queue (robot cm) @ medium (robot cm) (ticks (robot cm)) = pre @ f # post"
    and "\<forall>g\<in>set pre. g = [] \<or> (\<exists>m. parse_frame g = Inr m)"
    and "f \<noteq> []"
    and "parse_frame f = Inl e"
  shows "receive_message ins cm =
           (Inl e, cm\<lparr>robot := (robot cm)\<lparr>queue := post,
              ticks := Suc (ticks (robot cm)),
              sim_time := sim_time (robot cm) + time_step cm,
              list_messages := foldl (\<lambda>l x. ins x l) (list_messages (robot cm))
                (accepted (robot_name (robot cm)) (max_send_counter cm) pre)\<rparr>\<rparr>) \<and>
         queue (robot (snd (receive_message ins cm))) @
         medium (robot (snd (receive_message ins cm)))
           (ticks (robot (snd (receive_message ins cm)))) =
           post @ medium (robot cm) (Suc (ticks (robot cm)))"
  using receive_message_error [OF assms, of ins] by (simp add: step_def)

theorem malformed_frame_not_atomic_witness:
  "receive_message (\<lambda>m l. l @ [m])
      (CommunicationManager
        \<lparr>robot_name = ''R'', known_robots = [], list_messages = [], basic_time_step = 32,
         emitted = [], queue = [''s;T;1;p;'', ''a;b;notanumber;d;e'', ''s;T;2;p;''],
         ticks = 0, sim_time = 0, medium = (\<lambda>k. [])\<rparr>) =
     (Inl (ValueError (''Invalid message format: '' @ [CHR 0x27] @ ''a;b;notanumber;d;e'' @ [CHR 0x27])),
      \<lparr>robot =
        \<lparr>robot_name = ''R'', known_robots = [],
         list_messages = [\<lparr>id_sender = ''s'', message_type = ''T'', send_counter = 1,
                           payload = ''p'', recipient = []\<rparr>],
         basic_time_step = 32, emitted = [], queue = [''s;T;2;p;''],
         ticks = 1, sim_time = 32, medium = (\<lambda>k. [])\<rparr>,
       time_step = 32, max_send_counter = 5\<rparr>)"
proof -
  let ?cm = "CommunicationManager
        \<lparr>robot_name = ''R'', known_robots = [], list_messages = [], basic_time_step = 32,
         emitted = [], queue = [''s;T;1;p;'', ''a;b;notanumber;d;e'', ''s;T;2;p;''],
         ticks = 0, sim_time = 0, medium = (\<lambda>k. [])\<rparr>"
  have p1: "parse_frame ''s;T;1;p;'' = Inr \<lparr>id_sender = ''s'', message_type = ''T'',
      send_counter = 1, payload = ''p'', recipient = []\<rparr>"
    by (simp add: frame_eval)
  have batch: "queue (robot ?cm) @ medium (robot ?cm) (ticks (robot ?cm)) =
      [''s;T;1;p;''] @ ''a;b;notanumber;d;e'' # [''s;T;2;p;'']"
    by (simp add: CommunicationManager_def)
  have pre: "\<forall>g\<in>set [''s;T;1;p;'']. g = [] \<or> (\<exists>m. parse_frame g = Inr m)"
    by (simp add: p1)
  have bad: "parse_frame ''a;b;notanumber;d;e'' = Inl (invalid_format ''a;b;notanumber;d;e'')"
    by (simp add: frame_eval)
  from malformed_frame_not_atomic [OF batch pre _ bad, of "\<lambda>m l. l @ [m]"]
  show ?thesis
    by (simp add: CommunicationManager_def accepted_def consider_frame_def p1 invalid_format_def)
qed

text \<open>
  C10. \<^verbatim>\<open>clear_messages\<close> leaves the clock where it is. \<^verbatim>\<open>receive_message\<close> lets exactly
  one tick of one time step pass, also when it fails. \<^verbatim>\<open>send_message\<close> lets exactly one
  tick pass when the counter plus one has at most 4300 digits; when it has more,
  \<^verbatim>\<open>format\<close> raises before \<^verbatim>\<open>robot.step\<close> is reached and the clock stays where it is.
\<close>

theorem clock_advance_per_call:
  "ticks (robot (clear_messages cm)) = ticks (robot cm) \<and>
   sim_time (robot (clear_messages cm)) = sim_time (robot cm) \<and>
   ticks (robot (snd (receive_message ins cm))) = Suc (ticks (robot cm)) \<and>
   sim_time (robot (snd (receive_message ins cm))) = sim_time (robot cm) + time_step cm \<and>
   (\<bar>send_counter m + 1\<bar> < 10 ^ int_max_str_digits \<longrightarrow>
      ticks (robot (snd (snd (send_message fmt cm m)))) = Suc (ticks (robot cm)) \<and>
      sim_time (robot (snd (snd (send_message fmt cm m)))) =
        sim_time (robot cm) + time_step cm) \<and>
   (10 ^ int_max_str_digits \<le> \<bar>send_counter m + 1\<bar> \<longrightarrow>
      ticks (robot (snd (snd (send_message fmt cm m)))) = ticks (robot cm) \<and>
      sim_time (robot (snd (snd (send_message fmt cm m)))) = sim_time (robot cm))"
  by (simp add: clear_messages_eq receive_message_def Let_def drain_loop_clock step_def
      emitter_send_def send_message_in_range send_message_beyond)

text \<open>From tick 7: still 7 after clearing, 8 after sending, 8 after a receive that fails.\<close>

theorem clock_advance_per_call_witness:
  "ticks (robot (clear_messages (CommunicationManager
        \<lparr>robot_name = ''R'', known_robots = [], list_messages = [], basic_time_step = 32,
         emitted = [], queue = [''a;b;c''], ticks = 7, sim_time = 224,
         medium = (\<lambda>k. [])\<rparr>))) = 7 \<and>
   ticks (robot (snd (snd (send_message (\<lambda>t. t) (CommunicationManager
        \<lparr>robot_name = ''R'', known_robots = [], list_messages = [], basic_time_step = 32,
         emitted = [], queue = [''a;b;c''], ticks = 7, sim_time = 224,
         medium = (\<lambda>k. [])\<rparr>)
      \<lparr>id_sender = ''R'', message_type = ''T'', send_counter = 0, payload = [],
       recipient = []\<rparr>)))) = 8 \<and>
   ticks (robot (snd (receive_message (\<lambda>m l. l @ [m]) (CommunicationManager
        \<lparr>robot_name = ''R'', known_robots = [], list_messages = [], basic_time_step = 32,
         emitted = [], queue = [''a;b;c''], ticks = 7, sim_time = 224,
         medium = (\<lambda>k. [])\<rparr>)))) = 8"
proof -
  note small = one_in_range
  from clock_advance_per_call [where fmt = "\<lambda>t. t" and ins = "\<lambda>m l. l @ [m]"
      and m = "\<lparr>id_sender = ''R'', message_type = ''T'', send_counter = 0, payload = [],
       recipient = []\<rparr>"
      and cm = "CommunicationManager
        \<lparr>robot_name = ''R'', known_robots = [], list_messages = [], basic_time_step = 32,
         emitted = [], queue = [''a;b;c''], ticks = 7, sim_time = 224,
         medium = (\<lambda>k. [])\<rparr>"] small
  show ?thesis
    by (simp add: CommunicationManager_def)
qed

text \<open>From tick 7, a \<^verbatim>\<open>send_message\<close> with counter \<open>10 ^ 4300 - 1\<close> raises and leaves the
  clock at 7.\<close>

theorem clock_advance_per_call_counterexample:
  "fst (send_message (\<lambda>t. t) (CommunicationManager
        \<lparr>robot_name = ''A'', known_robots = [''B'', ''C''], list_messages = [],
         basic_time_step = 32, emitted = [], queue = [], ticks = 7, sim_time = 224,
         medium = (\<lambda>k. [])\<rparr>) \<lparr>id_sender = ''A'', message_type = ''T'',
       send_counter = 10 ^ int_max_str_digits - 1, payload = ''p'', recipient = ''B''\<rparr>) = Inl digits_limit_error \<and>
   ticks (robot (CommunicationManager
        \<lparr>robot_name = ''A'', known_robots = [''B'', ''C''], list_messages = [],
         basic_time_step = 32, emitted = [], queue = [], ticks = 7, sim_time = 224,
         medium = (\<lambda>k. [])\<rparr>)) = 7 \<and>
   ticks (robot (snd (snd (send_message (\<lambda>t. t) (CommunicationManager
        \<lparr>robot_name = ''A'', known_robots = [''B'', ''C''], list_messages = [],
         basic_time_step = 32, emitted = [], queue = [], ticks = 7, sim_time = 224,
         medium = (\<lambda>k. [])\<rparr>) \<lparr>id_sender = ''A'', message_type = ''T'',
       send_counter = 10 ^ int_max_str_digits - 1, payload = ''p'', recipient = ''B''\<rparr>)))) = 7"
  by (simp add: send_message_beyond CommunicationManager_def)

end
